theory Spec2Isabelle
  imports Main "HOL-Library.Word"
begin

unbundle bit_operations_syntax

section \<open>The ADV7180 video decoder driver (drivers/staging/media/imx6/capture/adv7180.c)\<close>

text \<open>
  A shallow embedding of the decoder state machine of the driver: lock and standard
  detection, the threaded interrupt handler, power switching, the analog controls and
  the input routing. C integers are words of their width (\<open>u8\<close>, \<open>u32\<close>, \<open>u64\<close>, and
  \<open>s32\<close> for \<open>int\<close>, read with \<open>sint\<close>); the \<open>int\<close> return codes of the I2C layer
  and of the driver functions are HOL integers (0 is success, a negative errno is a
  failure). Everything the driver does to the outside world is appended to a history of
  hardware events, oldest first.
\<close>

type_synonym u8 = "8 word"
type_synonym u32 = "32 word"
type_synonym s32 = "32 word"
type_synonym u64 = "64 word"
type_synonym v4l2_std_id = u64

subsection \<open>Constants of the kernel headers\<close>

text \<open>
  Modelled from the spec: the \<open>V4L2_STD_*\<close> standard identifiers named in the spec's
  autodetect table (NTSC, NTSC 4.43, PAL-M, PAL-60, PAL, SECAM, PAL-N). They are macros of
  include/uapi/linux/videodev2.h, which is not part of the source file; each is the bit
  mask that header gives it. The driver only stores and compares them.
\<close>

definition V4L2_STD_PAL :: v4l2_std_id where "V4L2_STD_PAL = 0xFF"
definition V4L2_STD_PAL_M :: v4l2_std_id where "V4L2_STD_PAL_M = 0x100"
definition V4L2_STD_PAL_N :: v4l2_std_id where "V4L2_STD_PAL_N = 0x200"
definition V4L2_STD_PAL_60 :: v4l2_std_id where "V4L2_STD_PAL_60 = 0x800"
definition V4L2_STD_NTSC :: v4l2_std_id where "V4L2_STD_NTSC = 0xB000"
definition V4L2_STD_NTSC_443 :: v4l2_std_id where "V4L2_STD_NTSC_443 = 0x4000"
definition V4L2_STD_SECAM :: v4l2_std_id where "V4L2_STD_SECAM = 0xFF0000"

text \<open>
  Modelled from the spec: the control identifiers of include/uapi/linux/v4l2-controls.h
  (brightness, contrast, saturation and hue are the four analog controls of the spec; the
  others are the ids the switch of \<open>adv7180_s_ctrl\<close> accepts and ignores), and the errno
  values \<open>EPERM\<close>, \<open>EIO\<close> and \<open>EINVAL\<close>.
\<close>

definition V4L2_CID_BASE :: u32 where "V4L2_CID_BASE = 0x00980900"
definition V4L2_CID_BRIGHTNESS :: u32 where "V4L2_CID_BRIGHTNESS = V4L2_CID_BASE + 0"
definition V4L2_CID_CONTRAST :: u32 where "V4L2_CID_CONTRAST = V4L2_CID_BASE + 1"
definition V4L2_CID_SATURATION :: u32 where "V4L2_CID_SATURATION = V4L2_CID_BASE + 2"
definition V4L2_CID_HUE :: u32 where "V4L2_CID_HUE = V4L2_CID_BASE + 3"
definition V4L2_CID_AUTO_WHITE_BALANCE :: u32 where "V4L2_CID_AUTO_WHITE_BALANCE = V4L2_CID_BASE + 12"
definition V4L2_CID_DO_WHITE_BALANCE :: u32 where "V4L2_CID_DO_WHITE_BALANCE = V4L2_CID_BASE + 13"
definition V4L2_CID_RED_BALANCE :: u32 where "V4L2_CID_RED_BALANCE = V4L2_CID_BASE + 14"
definition V4L2_CID_BLUE_BALANCE :: u32 where "V4L2_CID_BLUE_BALANCE = V4L2_CID_BASE + 15"
definition V4L2_CID_GAMMA :: u32 where "V4L2_CID_GAMMA = V4L2_CID_BASE + 16"
definition V4L2_CID_EXPOSURE :: u32 where "V4L2_CID_EXPOSURE = V4L2_CID_BASE + 17"
definition V4L2_CID_AUTOGAIN :: u32 where "V4L2_CID_AUTOGAIN = V4L2_CID_BASE + 18"
definition V4L2_CID_GAIN :: u32 where "V4L2_CID_GAIN = V4L2_CID_BASE + 19"
definition V4L2_CID_HFLIP :: u32 where "V4L2_CID_HFLIP = V4L2_CID_BASE + 20"
definition V4L2_CID_VFLIP :: u32 where "V4L2_CID_VFLIP = V4L2_CID_BASE + 21"

definition EPERM :: int where "EPERM = 1"
definition EIO :: int where "EIO = 5"
definition EINVAL :: int where "EINVAL = 22"

subsection \<open>Register map and bit masks of the driver\<close>

definition ADV7180_INPUT_CTL :: u8 where "ADV7180_INPUT_CTL = 0x00"
definition ADV7180_STATUS_1 :: u8 where "ADV7180_STATUS_1 = 0x10"
definition ADV7180_IN_LOCK :: u8 where "ADV7180_IN_LOCK = push_bit 0 1"
definition ADV7180_LOST_LOCK :: u8 where "ADV7180_LOST_LOCK = push_bit 1 1"
definition ADV7180_FSC_LOCK :: u8 where "ADV7180_FSC_LOCK = push_bit 2 1"
definition ADV7180_AD_RESULT_BIT :: nat where "ADV7180_AD_RESULT_BIT = 4"
definition ADV7180_AD_RESULT_MASK :: s32 where
  "ADV7180_AD_RESULT_MASK = push_bit ADV7180_AD_RESULT_BIT 0x7"
definition ADV7180_AD_NTSC :: s32 where "ADV7180_AD_NTSC = 0"
definition ADV7180_AD_NTSC_4_43 :: s32 where "ADV7180_AD_NTSC_4_43 = 1"
definition ADV7180_AD_PAL_M :: s32 where "ADV7180_AD_PAL_M = 2"
definition ADV7180_AD_PAL_60 :: s32 where "ADV7180_AD_PAL_60 = 3"
definition ADV7180_AD_PAL :: s32 where "ADV7180_AD_PAL = 4"
definition ADV7180_AD_SECAM :: s32 where "ADV7180_AD_SECAM = 5"
definition ADV7180_AD_PAL_N :: s32 where "ADV7180_AD_PAL_N = 6"
definition ADV7180_AD_SECAM_525 :: s32 where "ADV7180_AD_SECAM_525 = 7"
definition ADV7180_CONTRAST :: u8 where "ADV7180_CONTRAST = 0x08"
definition ADV7180_BRIGHTNESS :: u8 where "ADV7180_BRIGHTNESS = 0x0a"
definition ADV7180_HUE_REG :: u8 where "ADV7180_HUE_REG = 0x0b"
definition ADV7180_IDENT :: u8 where "ADV7180_IDENT = 0x11"
definition ADV7180_SD_SATURATION_CB :: u8 where "ADV7180_SD_SATURATION_CB = 0xe3"
definition ADV7180_SD_SATURATION_CR :: u8 where "ADV7180_SD_SATURATION_CR = 0xe4"
definition ADV7180_PWR_MNG :: u8 where "ADV7180_PWR_MNG = 0x0f"
definition ADV7180_INT_CONFIG_1 :: u8 where "ADV7180_INT_CONFIG_1 = 0x40"
definition ADV7180_INT_STATUS_1 :: u8 where "ADV7180_INT_STATUS_1 = 0x42"
definition ADV7180_INT_SD_LOCK :: u8 where "ADV7180_INT_SD_LOCK = push_bit 0 1"
definition ADV7180_INT_SD_UNLOCK :: u8 where "ADV7180_INT_SD_UNLOCK = push_bit 1 1"
definition ADV7180_INT_CLEAR_1 :: u8 where "ADV7180_INT_CLEAR_1 = 0x43"
definition ADV7180_INT_MASK_1 :: u8 where "ADV7180_INT_MASK_1 = 0x44"
definition ADV7180_INT_RAW_STATUS_3 :: u8 where "ADV7180_INT_RAW_STATUS_3 = 0x49"
definition ADV7180_INT_SD_V_LOCK :: u8 where "ADV7180_INT_SD_V_LOCK = push_bit 1 1"
definition ADV7180_INT_STATUS_3 :: u8 where "ADV7180_INT_STATUS_3 = 0x4a"
definition ADV7180_INT_SD_V_LOCK_CHNG :: u8 where "ADV7180_INT_SD_V_LOCK_CHNG = push_bit 1 1"
definition ADV7180_INT_SD_AD_CHNG :: u8 where "ADV7180_INT_SD_AD_CHNG = push_bit 3 1"
definition ADV7180_INT_CLEAR_3 :: u8 where "ADV7180_INT_CLEAR_3 = 0x4b"
definition ADV7180_INT_MASK_3 :: u8 where "ADV7180_INT_MASK_3 = 0x4c"

lemmas adv7180_regs =
  ADV7180_INPUT_CTL_def ADV7180_STATUS_1_def ADV7180_CONTRAST_def ADV7180_BRIGHTNESS_def
  ADV7180_HUE_REG_def ADV7180_IDENT_def ADV7180_SD_SATURATION_CB_def
  ADV7180_SD_SATURATION_CR_def ADV7180_PWR_MNG_def ADV7180_INT_CONFIG_1_def
  ADV7180_INT_STATUS_1_def ADV7180_INT_CLEAR_1_def ADV7180_INT_MASK_1_def
  ADV7180_INT_RAW_STATUS_3_def ADV7180_INT_STATUS_3_def ADV7180_INT_CLEAR_3_def
  ADV7180_INT_MASK_3_def

lemmas adv7180_bits =
  ADV7180_IN_LOCK_def ADV7180_LOST_LOCK_def ADV7180_FSC_LOCK_def ADV7180_INT_SD_LOCK_def
  ADV7180_INT_SD_UNLOCK_def ADV7180_INT_SD_V_LOCK_def ADV7180_INT_SD_V_LOCK_CHNG_def
  ADV7180_INT_SD_AD_CHNG_def

lemmas adv7180_ad_codes =
  ADV7180_AD_NTSC_def ADV7180_AD_NTSC_4_43_def ADV7180_AD_PAL_M_def ADV7180_AD_PAL_60_def
  ADV7180_AD_PAL_def ADV7180_AD_SECAM_def ADV7180_AD_PAL_N_def ADV7180_AD_SECAM_525_def

lemmas v4l2_stds =
  V4L2_STD_PAL_def V4L2_STD_PAL_M_def V4L2_STD_PAL_N_def V4L2_STD_PAL_60_def
  V4L2_STD_NTSC_def V4L2_STD_NTSC_443_def V4L2_STD_SECAM_def

lemmas v4l2_cids =
  V4L2_CID_BASE_def V4L2_CID_BRIGHTNESS_def V4L2_CID_CONTRAST_def V4L2_CID_SATURATION_def
  V4L2_CID_HUE_def V4L2_CID_AUTO_WHITE_BALANCE_def V4L2_CID_DO_WHITE_BALANCE_def
  V4L2_CID_RED_BALANCE_def V4L2_CID_BLUE_BALANCE_def V4L2_CID_GAMMA_def
  V4L2_CID_EXPOSURE_def V4L2_CID_AUTOGAIN_def V4L2_CID_GAIN_def V4L2_CID_HFLIP_def
  V4L2_CID_VFLIP_def

subsection \<open>Data model\<close>

text \<open>\<open>struct v4l2_rect\<close> and \<open>struct video_fmt_t\<close>, and the table \<open>video_fmts\<close>.\<close>

record v4l2_rect =
  left :: s32
  top :: s32
  width :: u32
  height :: u32

record video_fmt_t =
  v4l2_id :: s32
  name :: string
  raw :: v4l2_rect
  crop :: v4l2_rect

definition ADV7180_NTSC :: s32 where "ADV7180_NTSC = 0"
definition ADV7180_PAL :: s32 where "ADV7180_PAL = 1"

definition video_fmts :: "video_fmt_t list" where
  "video_fmts =
    [\<lparr>v4l2_id = ucast V4L2_STD_NTSC, name = ''NTSC'',
      raw = \<lparr>left = 0, top = 0, width = 720, height = 525\<rparr>,
      crop = \<lparr>left = 0, top = 13, width = 720, height = 480\<rparr>\<rparr>,
     \<lparr>v4l2_id = ucast V4L2_STD_PAL, name = ''PAL'',
      raw = \<lparr>left = 0, top = 0, width = 720, height = 625\<rparr>,
      crop = \<lparr>left = 0, top = 0, width = 720, height = 576\<rparr>\<rparr>]"

text \<open>
  \<open>struct v4l2_mbus_framefmt\<close> (the fields the driver sets) and \<open>struct adv7180_dev\<close>
  without its kernel handles: the I2C client is passed to each function beside the
  device state, and the mutex shows up as events of the history.
\<close>

record v4l2_mbus_framefmt =
  fmt_width :: u32
  fmt_height :: u32
  fmt_code :: u32
  fmt_field :: u32

record adv7180_dev =
  fmt :: v4l2_mbus_framefmt
  rev_id :: s32
  on :: bool
  locked :: bool
  brightness :: s32
  hue :: s32
  contrast :: s32
  saturation :: s32
  pwdn_gpio :: s32
  std_id :: v4l2_std_id
  video_idx :: s32
  current_input :: s32

text \<open>
  The hardware events of one run, in the order they happen. An I2C transfer is recorded
  with the value \<open>i2c_smbus_read_byte_data\<close> or \<open>i2c_smbus_write_byte_data\<close> returned.
\<close>

datatype hw_event =
    I2C_READ u8 int
  | I2C_WRITE u8 u8 int
  | GPIO_SET s32 int
  | USLEEP_RANGE nat nat
  | MUTEX_LOCK
  | MUTEX_UNLOCK
  | DECODER_STATUS_CHANGE_NOTIFY

text \<open>
  The bus is the external collaborator: what a transfer returns is any function of
  everything that has happened so far and of the transfer asked for. A read returns the
  byte (0 to 255) or a negative errno; a write returns 0 or a negative errno.
\<close>

record i2c_client =
  i2c_smbus_read_byte_data :: "hw_event list \<Rightarrow> u8 \<Rightarrow> int"
  i2c_smbus_write_byte_data :: "hw_event list \<Rightarrow> u8 \<Rightarrow> u8 \<Rightarrow> int"
  irq :: int

subsection \<open>I2C transfer\<close>

text \<open>
  \<open>adv7180_read_reg\<close> returns \<open>Inl ret\<close> with the negative code when the transfer
  failed (it returns \<open>ret\<close> and leaves \<open>*val\<close> alone) and \<open>Inr val\<close> when it returns 0
  with \<open>*val = ret\<close> (the \<open>int\<close> truncated to \<open>u8\<close>). \<open>adv7180_write_reg\<close> returns
  what the transfer returned. The \<open>v4l2_err\<close> log lines are not modelled.
\<close>

definition adv7180_read_reg ::
  "i2c_client \<Rightarrow> u8 \<Rightarrow> hw_event list \<Rightarrow> (int + u8) \<times> hw_event list" where
  "adv7180_read_reg client reg h =
    (let ret = i2c_smbus_read_byte_data client h reg;
         h' = h @ [I2C_READ reg ret]
     in if ret < 0 then (Inl ret, h') else (Inr (word_of_int ret), h'))"

definition adv7180_write_reg ::
  "i2c_client \<Rightarrow> u8 \<Rightarrow> u8 \<Rightarrow> hw_event list \<Rightarrow> int \<times> hw_event list" where
  "adv7180_write_reg client reg val h =
    (let ret = i2c_smbus_write_byte_data client h reg val
     in (ret, h @ [I2C_WRITE reg val ret]))"

text \<open>
  The macros \<open>ADV7180_READ_REG\<close> and \<open>ADV7180_WRITE_REG\<close>: do the transfer and, when
  its result is not 0, return it from the enclosing function at once. \<open>return\<close> is what
  the enclosing function returns for a code and a history, \<open>continue\<close> is the rest of its
  body.
\<close>

definition ADV7180_READ_REG ::
  "i2c_client \<Rightarrow> u8 \<Rightarrow> hw_event list \<Rightarrow> (int \<Rightarrow> hw_event list \<Rightarrow> 'r) \<Rightarrow>
   (u8 \<Rightarrow> hw_event list \<Rightarrow> 'r) \<Rightarrow> 'r" where
  "ADV7180_READ_REG client reg h return continue =
    (case adv7180_read_reg client reg h of
       (Inl ret, h') \<Rightarrow> return ret h'
     | (Inr val, h') \<Rightarrow> continue val h')"

definition ADV7180_WRITE_REG ::
  "i2c_client \<Rightarrow> u8 \<Rightarrow> u8 \<Rightarrow> hw_event list \<Rightarrow> (int \<Rightarrow> hw_event list \<Rightarrow> 'r) \<Rightarrow>
   (hw_event list \<Rightarrow> 'r) \<Rightarrow> 'r" where
  "ADV7180_WRITE_REG client reg val h return continue =
    (case adv7180_write_reg client reg val h of
       (ret, h') \<Rightarrow> if ret \<noteq> 0 then return ret h' else continue h')"

subsection \<open>Lock and standard detection\<close>

text \<open>
  Both functions return the \<open>int\<close> result, the device state, the content of
  \<open>*status_change\<close> and the history. \<open>*status_change\<close> is an out parameter: the
  argument \<open>status_change\<close> is what the caller's variable held before the call, and it
  comes back unchanged on the paths that do not assign it.
\<close>

text \<open>
  The \<open>switch (ad_result)\<close> of \<open>adv7180_get_autodetect_std\<close>, which assigns the
  locals \<open>std\<close> and \<open>idx\<close>; the cases are in the order of the source, and the values
  the locals were initialised with (\<open>V4L2_STD_PAL\<close>, \<open>ADV7180_PAL\<close>) remain where no
  case matches.
\<close>

definition ad_result_switch :: "s32 \<Rightarrow> v4l2_std_id \<times> s32" where
  "ad_result_switch ad_result =
    (let idx = ADV7180_PAL;
         std = V4L2_STD_PAL
     in if ad_result = ADV7180_AD_PAL then (V4L2_STD_PAL, ADV7180_PAL)
        else if ad_result = ADV7180_AD_PAL_M then (V4L2_STD_PAL_M, ADV7180_NTSC)
        else if ad_result = ADV7180_AD_PAL_N then (V4L2_STD_PAL_N, ADV7180_PAL)
        else if ad_result = ADV7180_AD_PAL_60 then (V4L2_STD_PAL_60, ADV7180_NTSC)
        else if ad_result = ADV7180_AD_NTSC then (V4L2_STD_NTSC, ADV7180_NTSC)
        else if ad_result = ADV7180_AD_NTSC_4_43 then (V4L2_STD_NTSC_443, ADV7180_NTSC)
        else if ad_result = ADV7180_AD_SECAM then (V4L2_STD_SECAM, ADV7180_PAL)
        else if ad_result = ADV7180_AD_SECAM_525 then (V4L2_STD_SECAM, ADV7180_NTSC)
        else (std, idx))"

definition adv7180_get_autodetect_std ::
  "i2c_client \<Rightarrow> adv7180_dev \<Rightarrow> bool \<Rightarrow> hw_event list \<Rightarrow>
   int \<times> adv7180_dev \<times> bool \<times> hw_event list" where
  "adv7180_get_autodetect_std client sensor status_change h =
    (let status_change = False
     in if \<not> locked sensor then (0, sensor, status_change, h)
        else
          ADV7180_READ_REG client ADV7180_STATUS_1 h
            (\<lambda>ret h. (ret, sensor, status_change, h))
            (\<lambda>stat1 h.
              let ad_result = drop_bit ADV7180_AD_RESULT_BIT
                                (ucast stat1 AND ADV7180_AD_RESULT_MASK);
                  (std, idx) = ad_result_switch ad_result
              in if std \<noteq> std_id sensor then
                   (0,
                    sensor\<lparr>video_idx := idx, std_id := std,
                      fmt := (fmt sensor)
                        \<lparr>fmt_width := width (raw (video_fmts ! unat idx)),
                         fmt_height := height (raw (video_fmts ! unat idx))\<rparr>\<rparr>,
                    True, h)
                 else (0, sensor, status_change, h)))"

definition adv7180_update_lock_status ::
  "i2c_client \<Rightarrow> adv7180_dev \<Rightarrow> bool \<Rightarrow> hw_event list \<Rightarrow>
   int \<times> adv7180_dev \<times> bool \<times> hw_event list" where
  "adv7180_update_lock_status client sensor status_change h =
    (let return = (\<lambda>ret h. (ret, sensor, status_change, h))
     in
      ADV7180_READ_REG client ADV7180_STATUS_1 h return (\<lambda>stat1 h.
      ADV7180_WRITE_REG client 0x0E 0x20 h return (\<lambda>h.
      ADV7180_READ_REG client ADV7180_INT_STATUS_1 h return (\<lambda>int_stat1 h.
      ADV7180_READ_REG client ADV7180_INT_STATUS_3 h return (\<lambda>int_stat3 h.
      ADV7180_WRITE_REG client ADV7180_INT_CLEAR_1 int_stat1 h return (\<lambda>h.
      ADV7180_WRITE_REG client ADV7180_INT_CLEAR_3 int_stat3 h return (\<lambda>h.
      ADV7180_READ_REG client ADV7180_INT_RAW_STATUS_3 h return (\<lambda>int_raw_stat3 h.
      ADV7180_WRITE_REG client 0x0E 0x00 h return (\<lambda>h.
        (0,
         sensor\<lparr>locked :=
           (stat1 AND ADV7180_IN_LOCK \<noteq> 0 \<and>
            stat1 AND ADV7180_FSC_LOCK \<noteq> 0 \<and>
            int_raw_stat3 AND ADV7180_INT_SD_V_LOCK \<noteq> 0)\<rparr>,
         (int_stat1 AND ADV7180_INT_SD_LOCK \<noteq> 0 \<or>
          int_stat1 AND ADV7180_INT_SD_UNLOCK \<noteq> 0 \<or>
          int_stat3 AND ADV7180_INT_SD_V_LOCK_CHNG \<noteq> 0),
         h))))))))))"

subsection \<open>Power\<close>

text \<open>
  \<open>gpio_is_valid\<close> belongs to the GPIO layer and is a parameter. The results of the
  power-management writes are not looked at by the source.
\<close>

definition adv7180_power ::
  "(s32 \<Rightarrow> bool) \<Rightarrow> i2c_client \<Rightarrow> adv7180_dev \<Rightarrow> bool \<Rightarrow> hw_event list \<Rightarrow>
   adv7180_dev \<times> hw_event list" where
  "adv7180_power gpio_is_valid client sensor enable h =
    (let h =
       (if enable \<and> \<not> on sensor then
          let h = (if gpio_is_valid (pwdn_gpio sensor)
                   then h @ [GPIO_SET (pwdn_gpio sensor) 1] else h);
              h = h @ [USLEEP_RANGE 5000 5001]
          in snd (adv7180_write_reg client ADV7180_PWR_MNG 0 h)
        else if \<not> enable \<and> on sensor then
          let h = snd (adv7180_write_reg client ADV7180_PWR_MNG 0x24 h)
          in if gpio_is_valid (pwdn_gpio sensor)
             then h @ [GPIO_SET (pwdn_gpio sensor) 0] else h
        else h)
     in (sensor\<lparr>on := enable\<rparr>, h))"

subsection \<open>Threaded interrupt handler\<close>

text \<open>
  The locals \<open>std_change\<close> and \<open>lock_status_change\<close> are declared without an
  initialiser: what they hold before the calls is an argument of the model. The results
  of the two calls are dropped, as in the source; the handler always returns
  \<open>IRQ_HANDLED\<close>, so the model returns the device state and the history.
\<close>

definition adv7180_interrupt ::
  "i2c_client \<Rightarrow> adv7180_dev \<Rightarrow> bool \<Rightarrow> bool \<Rightarrow> hw_event list \<Rightarrow>
   adv7180_dev \<times> hw_event list" where
  "adv7180_interrupt client sensor std_change lock_status_change h =
    (let h = h @ [MUTEX_LOCK];
         (_, sensor, lock_status_change, h) =
            adv7180_update_lock_status client sensor lock_status_change h;
         (_, sensor, std_change, h) =
            adv7180_get_autodetect_std client sensor std_change h;
         h = h @ [MUTEX_UNLOCK]
     in if lock_status_change \<or> std_change
        then (sensor, h @ [DECODER_STATUS_CHANGE_NOTIFY])
        else (sensor, h))"

subsection \<open>Input table and routing\<close>

record adv7180_inputs_t =
  desc :: string
  insel :: u8

definition adv7180_inputs_64_48 :: "adv7180_inputs_t list" where
  "adv7180_inputs_64_48 =
    [\<lparr>desc = ''ADV7180 Composite on Ain1'', insel = 0x00\<rparr>,
     \<lparr>desc = ''ADV7180 Composite on Ain2'', insel = 0x01\<rparr>,
     \<lparr>desc = ''ADV7180 Composite on Ain3'', insel = 0x02\<rparr>,
     \<lparr>desc = ''ADV7180 Composite on Ain4'', insel = 0x03\<rparr>,
     \<lparr>desc = ''ADV7180 Composite on Ain5'', insel = 0x04\<rparr>,
     \<lparr>desc = ''ADV7180 Composite on Ain6'', insel = 0x05\<rparr>,
     \<lparr>desc = ''ADV7180 Y/C on Ain1/4'', insel = 0x06\<rparr>,
     \<lparr>desc = ''ADV7180 Y/C on Ain2/5'', insel = 0x07\<rparr>,
     \<lparr>desc = ''ADV7180 Y/C on Ain3/6'', insel = 0x08\<rparr>,
     \<lparr>desc = ''ADV7180 YPbPr on Ain1/4/5'', insel = 0x09\<rparr>,
     \<lparr>desc = ''ADV7180 YPbPr on Ain2/3/6'', insel = 0x0a\<rparr>]"

text \<open>
  The loop of \<open>adv7180_find_input\<close> over the table, from index \<open>i\<close> on: the first
  entry whose \<open>insel\<close> (promoted from \<open>u8\<close>) equals the \<open>u32\<close> selector, or
  \<open>None\<close> for the \<open>NULL\<close> it returns when the loop ends.
\<close>

fun find_input_from :: "adv7180_inputs_t list \<Rightarrow> u32 \<Rightarrow> adv7180_inputs_t option" where
  "find_input_from [] sel = None"
| "find_input_from (e # es) sel =
     (if sel = ucast (insel e) then Some e else find_input_from es sel)"

definition adv7180_find_input :: "u32 \<Rightarrow> adv7180_inputs_t option" where
  "adv7180_find_input sel = find_input_from adv7180_inputs_64_48 sel"

text \<open>
  \<open>adv7180_s_routing\<close>: the arguments \<open>output\<close> and \<open>config\<close> are not used by the
  source. The result of the register write is dropped.
\<close>

definition adv7180_s_routing ::
  "i2c_client \<Rightarrow> adv7180_dev \<Rightarrow> u32 \<Rightarrow> hw_event list \<Rightarrow>
   int \<times> adv7180_dev \<times> hw_event list" where
  "adv7180_s_routing client sensor input h =
    (case adv7180_find_input input of
       None \<Rightarrow> (- EINVAL, sensor, h)
     | Some advinput \<Rightarrow>
         let h = h @ [MUTEX_LOCK];
             h = snd (adv7180_write_reg client ADV7180_INPUT_CTL (insel advinput) h);
             sensor = sensor\<lparr>current_input := input\<rparr>;
             h = h @ [MUTEX_UNLOCK]
         in (0, sensor, h))"

subsection \<open>Controls\<close>

record v4l2_ctrl =
  ctrl_id :: u32
  ctrl_val :: s32

text \<open>
  \<open>adv7180_s_ctrl\<close>: \<open>tmp\<close> is a \<open>u8\<close>, so \<open>tmp = ctrl->val\<close> truncates; in
  \<open>-tmp\<close> the byte is promoted to \<open>int\<close> before the negation, and the result is
  truncated again to the \<open>u8\<close> parameter of \<open>adv7180_write_reg\<close>.
\<close>

definition adv7180_s_ctrl ::
  "i2c_client \<Rightarrow> adv7180_dev \<Rightarrow> v4l2_ctrl \<Rightarrow> hw_event list \<Rightarrow>
   int \<times> adv7180_dev \<times> hw_event list" where
  "adv7180_s_ctrl client sensor ctrl h =
    (let ret = 0;
         return = (\<lambda>ret h. (ret, sensor, h));
         tmp = (ucast (ctrl_val ctrl) :: u8)
     in
      if ctrl_id ctrl = V4L2_CID_BRIGHTNESS then
        ADV7180_WRITE_REG client ADV7180_BRIGHTNESS tmp h return (\<lambda>h.
          (ret, sensor\<lparr>brightness := ctrl_val ctrl\<rparr>, h))
      else if ctrl_id ctrl = V4L2_CID_CONTRAST then
        ADV7180_WRITE_REG client ADV7180_CONTRAST tmp h return (\<lambda>h.
          (ret, sensor\<lparr>contrast := ctrl_val ctrl\<rparr>, h))
      else if ctrl_id ctrl = V4L2_CID_SATURATION then
        ADV7180_WRITE_REG client ADV7180_SD_SATURATION_CB tmp h return (\<lambda>h.
        ADV7180_WRITE_REG client ADV7180_SD_SATURATION_CR tmp h return (\<lambda>h.
          (ret, sensor\<lparr>saturation := ctrl_val ctrl\<rparr>, h)))
      else if ctrl_id ctrl = V4L2_CID_HUE then
        ADV7180_WRITE_REG client ADV7180_HUE_REG (ucast (- (ucast tmp :: s32))) h return (\<lambda>h.
          (ret, sensor\<lparr>hue := ctrl_val ctrl\<rparr>, h))
      else if ctrl_id ctrl \<in> {V4L2_CID_AUTO_WHITE_BALANCE, V4L2_CID_DO_WHITE_BALANCE,
                V4L2_CID_RED_BALANCE, V4L2_CID_BLUE_BALANCE, V4L2_CID_GAMMA,
                V4L2_CID_EXPOSURE, V4L2_CID_AUTOGAIN, V4L2_CID_GAIN, V4L2_CID_HFLIP,
                V4L2_CID_VFLIP} then (ret, sensor, h)
      else (- EPERM, sensor, h))"

subsection \<open>Concrete devices and states for the runs below\<close>

text \<open>
  A bus whose answers depend only on the register addressed: \<open>rd reg\<close> is what a read
  of \<open>reg\<close> returns and \<open>wr reg\<close> what a write to \<open>reg\<close> returns.
\<close>

definition static_client :: "(u8 \<Rightarrow> int) \<Rightarrow> (u8 \<Rightarrow> int) \<Rightarrow> i2c_client" where
  "static_client rd wr =
    \<lparr>i2c_smbus_read_byte_data = (\<lambda>h reg. rd reg),
     i2c_smbus_write_byte_data = (\<lambda>h reg val. wr reg),
     irq = 0\<rparr>"

text \<open>
  The device state \<open>adv7180_probe\<close> sets up for \<open>default-std = "ntsc"\<close> with no
  power-down GPIO, before the first lock status update: the zeroed allocation, the NTSC
  standard and geometry, \<open>MEDIA_BUS_FMT_UYVY8_2X8\<close> (0x2006) and \<open>V4L2_FIELD_SEQ_BT\<close>
  (6), powered on.
\<close>

definition probed_ntsc :: adv7180_dev where
  "probed_ntsc =
    \<lparr>fmt = \<lparr>fmt_width = 720, fmt_height = 525, fmt_code = 0x2006, fmt_field = 6\<rparr>,
     rev_id = 0, on = True, locked = False,
     brightness = 0, hue = 0, contrast = 0, saturation = 0,
     pwdn_gpio = - 1, std_id = V4L2_STD_NTSC, video_idx = ADV7180_NTSC,
     current_input = 0\<rparr>"

text \<open>
  What the driver takes for a failed transfer (a read that returned a negative value, a
  write that returned anything but 0), and the value a transfer returned.
\<close>

fun xfer_failed :: "hw_event \<Rightarrow> bool" where
  "xfer_failed (I2C_READ reg ret) = (ret < 0)"
| "xfer_failed (I2C_WRITE reg val ret) = (ret \<noteq> 0)"
| "xfer_failed _ = False"

fun xfer_ret :: "hw_event \<Rightarrow> int" where
  "xfer_ret (I2C_READ reg ret) = ret"
| "xfer_ret (I2C_WRITE reg val ret) = ret"
| "xfer_ret _ = 0"

text \<open>
  The autodetect table as the spec states it, indexed by the 3-bit code: the standard id
  and the index into \<open>video_fmts\<close>.
\<close>

definition spec_autodetect_table :: "(v4l2_std_id \<times> s32) list" where
  "spec_autodetect_table =
    [(V4L2_STD_NTSC, ADV7180_NTSC),
     (V4L2_STD_NTSC_443, ADV7180_NTSC),
     (V4L2_STD_PAL_M, ADV7180_NTSC),
     (V4L2_STD_PAL_60, ADV7180_NTSC),
     (V4L2_STD_PAL, ADV7180_PAL),
     (V4L2_STD_SECAM, ADV7180_PAL),
     (V4L2_STD_PAL_N, ADV7180_PAL),
     (V4L2_STD_SECAM, ADV7180_NTSC)]"

section \<open>Properties\<close>

subsection \<open>Auxiliary facts\<close>

lemma and_bit_mask_u8: "((x::u8) AND push_bit n 1 \<noteq> 0) = bit x n"
  by (simp add: push_bit_of_1 and_exp_eq_0_iff_not_bit)

lemma unat_ucast_u8_s32: "unat (ucast (x::u8) :: s32) = unat x"
proof -
  have "unat x < 2 ^ 8" using unsigned_less [of x] by simp
  then have "unat x < 2 ^ 32" by simp
  then show ?thesis by (simp add: unsigned_ucast_eq take_bit_nat_eq_self)
qed

text \<open>The autodetect result is bits 6 to 4 of the status byte.\<close>

lemma ad_result_extract:
  "drop_bit ADV7180_AD_RESULT_BIT (ucast (stat1::u8) AND ADV7180_AD_RESULT_MASK)
     = (word_of_nat ((unat stat1 div 16) mod 8) :: s32)"
proof -
  have m: "(7::s32) = mask 3" by (simp add: mask_eq_exp_minus_1)
  have a: "drop_bit 4 (push_bit 4 (7::s32)) = 7" by simp
  have "drop_bit 4 ((ucast stat1 :: s32) AND push_bit 4 7) = drop_bit 4 (ucast stat1 :: s32) AND 7"
    unfolding drop_bit_and a ..
  also have "\<dots> = take_bit 3 (drop_bit 4 (ucast stat1 :: s32))"
    unfolding m by (simp add: take_bit_eq_mask del: mask_numeral)
  finally have e: "drop_bit 4 ((ucast stat1 :: s32) AND push_bit 4 7)
      = take_bit 3 (drop_bit 4 (ucast stat1 :: s32))" .
  have "unat (take_bit 3 (drop_bit 4 (ucast stat1 :: s32)))
      = take_bit 3 (drop_bit 4 (unat stat1))"
    by (simp only: unsigned_take_bit_eq unat_drop_bit_eq unat_ucast_u8_s32)
  also have "\<dots> = (unat stat1 div 16) mod 8"
    by (simp add: take_bit_eq_mod drop_bit_eq_div)
  finally have "word_of_nat (unat (take_bit 3 (drop_bit 4 (ucast stat1 :: s32))))
      = (word_of_nat ((unat stat1 div 16) mod 8) :: s32)"
    by (rule arg_cong)
  then have "take_bit 3 (drop_bit 4 (ucast stat1 :: s32))
      = word_of_nat ((unat stat1 div 16) mod 8)"
    by simp
  with e show ?thesis
    unfolding ADV7180_AD_RESULT_BIT_def ADV7180_AD_RESULT_MASK_def by simp
qed

lemma ad_result_switch_table:
  "ad_result_switch 0 = (V4L2_STD_NTSC, ADV7180_NTSC)"
  "ad_result_switch 1 = (V4L2_STD_NTSC_443, ADV7180_NTSC)"
  "ad_result_switch 2 = (V4L2_STD_PAL_M, ADV7180_NTSC)"
  "ad_result_switch 3 = (V4L2_STD_PAL_60, ADV7180_NTSC)"
  "ad_result_switch 4 = (V4L2_STD_PAL, ADV7180_PAL)"
  "ad_result_switch 5 = (V4L2_STD_SECAM, ADV7180_PAL)"
  "ad_result_switch 6 = (V4L2_STD_PAL_N, ADV7180_PAL)"
  "ad_result_switch 7 = (V4L2_STD_SECAM, ADV7180_NTSC)"
  by (simp_all add: ad_result_switch_def adv7180_ad_codes)

lemma nat_lt8_cases: "(code::nat) < 8 \<Longrightarrow> code \<in> {0, 1, 2, 3, 4, 5, 6, 7}"
  by auto

lemma ad_result_switch_idx:
  "snd (ad_result_switch (word_of_nat (n mod 8))) = ADV7180_NTSC \<or>
   snd (ad_result_switch (word_of_nat (n mod 8))) = ADV7180_PAL"
proof -
  have "n mod 8 < 8" by simp
  from nat_lt8_cases [OF this] show ?thesis
    by (auto simp: ad_result_switch_table)
qed

text \<open>
  The run of \<open>adv7180_update_lock_status\<close> that returns 0: all eight transfers were
  made and succeeded, in the order of the source.
\<close>

lemma update_lock_status_success:
  assumes "adv7180_update_lock_status client sensor sc h = (0, sensor', sc', h')"
  shows "\<exists>r1 r2 r3 r4. 0 \<le> r1 \<and> 0 \<le> r2 \<and> 0 \<le> r3 \<and> 0 \<le> r4 \<and>
     h' = h @ [I2C_READ 0x10 r1, I2C_WRITE 0x0E 0x20 0, I2C_READ 0x42 r2, I2C_READ 0x4a r3,
               I2C_WRITE 0x43 (word_of_int r2) 0, I2C_WRITE 0x4b (word_of_int r3) 0,
               I2C_READ 0x49 r4, I2C_WRITE 0x0E 0x00 0] \<and>
     sensor' = sensor\<lparr>locked :=
        (bit (word_of_int r1 :: u8) 0 \<and> bit (word_of_int r1 :: u8) 2 \<and>
         bit (word_of_int r4 :: u8) 1)\<rparr> \<and>
     sc' = (bit (word_of_int r2 :: u8) 0 \<or> bit (word_of_int r2 :: u8) 1 \<or>
            bit (word_of_int r3 :: u8) 1)"
  using assms
  unfolding adv7180_update_lock_status_def ADV7180_READ_REG_def ADV7180_WRITE_REG_def
    adv7180_read_reg_def adv7180_write_reg_def Let_def adv7180_regs adv7180_bits
    and_bit_mask_u8
  by (auto split: if_splits)

text \<open>The runs that return an error leave the state and \<open>*status_change\<close> alone.\<close>

lemma update_lock_status_failure:
  assumes "adv7180_update_lock_status client sensor sc h = (ret, sensor', sc', h')"
    and "ret \<noteq> 0"
  shows "sensor' = sensor \<and> sc' = sc"
  using assms
  unfolding adv7180_update_lock_status_def ADV7180_READ_REG_def ADV7180_WRITE_REG_def
    adv7180_read_reg_def adv7180_write_reg_def Let_def
  by (simp split: if_splits)

lemmas run_defs =
  adv7180_update_lock_status_def adv7180_get_autodetect_std_def ADV7180_READ_REG_def
  ADV7180_WRITE_REG_def adv7180_read_reg_def adv7180_write_reg_def static_client_def
  Let_def adv7180_regs adv7180_bits

subsection \<open>Lock status\<close>

text \<open>
  The run of \<open>adv7180_update_lock_status\<close> on a bus where all eight transfers
  succeed, with every value taken from the bus at the history the transfer is made in:
  the whole result of the call.
\<close>

lemma update_lock_status_run:
  assumes "i2c_smbus_read_byte_data client h ADV7180_STATUS_1 = stat1" and "0 \<le> stat1"
    and "h1 = h @ [I2C_READ ADV7180_STATUS_1 stat1]"
    and "i2c_smbus_write_byte_data client h1 0x0E 0x20 = 0"
    and "h2 = h1 @ [I2C_WRITE 0x0E 0x20 0]"
    and "i2c_smbus_read_byte_data client h2 ADV7180_INT_STATUS_1 = int_stat1"
    and "0 \<le> int_stat1"
    and "h3 = h2 @ [I2C_READ ADV7180_INT_STATUS_1 int_stat1]"
    and "i2c_smbus_read_byte_data client h3 ADV7180_INT_STATUS_3 = int_stat3"
    and "0 \<le> int_stat3"
    and "h4 = h3 @ [I2C_READ ADV7180_INT_STATUS_3 int_stat3]"
    and "i2c_smbus_write_byte_data client h4 ADV7180_INT_CLEAR_1 (word_of_int int_stat1) = 0"
    and "h5 = h4 @ [I2C_WRITE ADV7180_INT_CLEAR_1 (word_of_int int_stat1) 0]"
    and "i2c_smbus_write_byte_data client h5 ADV7180_INT_CLEAR_3 (word_of_int int_stat3) = 0"
    and "h6 = h5 @ [I2C_WRITE ADV7180_INT_CLEAR_3 (word_of_int int_stat3) 0]"
    and "i2c_smbus_read_byte_data client h6 ADV7180_INT_RAW_STATUS_3 = int_raw_stat3"
    and "0 \<le> int_raw_stat3"
    and "h7 = h6 @ [I2C_READ ADV7180_INT_RAW_STATUS_3 int_raw_stat3]"
    and "i2c_smbus_write_byte_data client h7 0x0E 0x00 = 0"
  shows "adv7180_update_lock_status client sensor status_change h =
     (0,
      sensor\<lparr>locked :=
        (bit (word_of_int stat1 :: u8) 0 \<and> bit (word_of_int stat1 :: u8) 2 \<and>
         bit (word_of_int int_raw_stat3 :: u8) 1)\<rparr>,
      (bit (word_of_int int_stat1 :: u8) 0 \<or> bit (word_of_int int_stat1 :: u8) 1 \<or>
       bit (word_of_int int_stat3 :: u8) 1),
      h7 @ [I2C_WRITE 0x0E 0x00 0])"
  using assms
  unfolding adv7180_update_lock_status_def ADV7180_READ_REG_def ADV7180_WRITE_REG_def
    adv7180_read_reg_def adv7180_write_reg_def Let_def adv7180_bits and_bit_mask_u8
  by simp

text \<open>
  The same on a bus that is a plain register file: a read returns the byte the register
  holds and every write succeeds.
\<close>

lemma update_lock_status_regfile:
  "adv7180_update_lock_status (static_client (\<lambda>reg. uint (regs reg)) (\<lambda>reg. 0))
     sensor status_change h =
     (0,
      sensor\<lparr>locked :=
        (bit (regs 0x10 :: u8) 0 \<and> bit (regs 0x10) 2 \<and> bit (regs 0x49) 1)\<rparr>,
      (bit (regs 0x42) 0 \<or> bit (regs 0x42) 1 \<or> bit (regs 0x4a) 1),
      h @ [I2C_READ 0x10 (uint (regs 0x10)), I2C_WRITE 0x0E 0x20 0,
           I2C_READ 0x42 (uint (regs 0x42)), I2C_READ 0x4a (uint (regs 0x4a)),
           I2C_WRITE 0x43 (regs 0x42) 0, I2C_WRITE 0x4b (regs 0x4a) 0,
           I2C_READ 0x49 (uint (regs 0x49)), I2C_WRITE 0x0E 0x00 0])"
  unfolding adv7180_update_lock_status_def ADV7180_READ_REG_def ADV7180_WRITE_REG_def
    adv7180_read_reg_def adv7180_write_reg_def Let_def adv7180_bits and_bit_mask_u8
    adv7180_regs static_client_def
  by simp

text \<open>
  C1. \<open>adv7180_update_lock_status\<close> reads register 0x10 first and register 0x49 as
  its seventh transfer, and when all eight transfers succeed it returns 0 with the new
  \<open>locked\<close> equal to the conjunction of exactly three bits of what the bus returned for
  these two reads: bit 0 (IN_LOCK) and bit 2 (FSC_LOCK) of the byte of register 0x10 and
  bit 1 (SD_V_LOCK) of the byte of register 0x49. On a register file, for every content
  of the registers, \<open>locked\<close> is that conjunction of the bits of registers 0x10 and
  0x49: with two of the bits set the third decides it, and no other bit of any register
  takes part.
\<close>

theorem update_lock_status_locked_and3:
  assumes "i2c_smbus_read_byte_data client h ADV7180_STATUS_1 = stat1" and "0 \<le> stat1"
    and "h1 = h @ [I2C_READ ADV7180_STATUS_1 stat1]"
    and "i2c_smbus_write_byte_data client h1 0x0E 0x20 = 0"
    and "h2 = h1 @ [I2C_WRITE 0x0E 0x20 0]"
    and "i2c_smbus_read_byte_data client h2 ADV7180_INT_STATUS_1 = int_stat1"
    and "0 \<le> int_stat1"
    and "h3 = h2 @ [I2C_READ ADV7180_INT_STATUS_1 int_stat1]"
    and "i2c_smbus_read_byte_data client h3 ADV7180_INT_STATUS_3 = int_stat3"
    and "0 \<le> int_stat3"
    and "h4 = h3 @ [I2C_READ ADV7180_INT_STATUS_3 int_stat3]"
    and "i2c_smbus_write_byte_data client h4 ADV7180_INT_CLEAR_1 (word_of_int int_stat1) = 0"
    and "h5 = h4 @ [I2C_WRITE ADV7180_INT_CLEAR_1 (word_of_int int_stat1) 0]"
    and "i2c_smbus_write_byte_data client h5 ADV7180_INT_CLEAR_3 (word_of_int int_stat3) = 0"
    and "h6 = h5 @ [I2C_WRITE ADV7180_INT_CLEAR_3 (word_of_int int_stat3) 0]"
    and "i2c_smbus_read_byte_data client h6 ADV7180_INT_RAW_STATUS_3 = int_raw_stat3"
    and "0 \<le> int_raw_stat3"
    and "h7 = h6 @ [I2C_READ ADV7180_INT_RAW_STATUS_3 int_raw_stat3]"
    and "i2c_smbus_write_byte_data client h7 0x0E 0x00 = 0"
  shows "ADV7180_STATUS_1 = 0x10 \<and> ADV7180_INT_RAW_STATUS_3 = 0x49 \<and>
     adv7180_update_lock_status client sensor status_change h =
       (0,
        sensor\<lparr>locked :=
          (bit (word_of_int stat1 :: u8) 0 \<and> bit (word_of_int stat1 :: u8) 2 \<and>
           bit (word_of_int int_raw_stat3 :: u8) 1)\<rparr>,
        (bit (word_of_int int_stat1 :: u8) 0 \<or> bit (word_of_int int_stat1 :: u8) 1 \<or>
         bit (word_of_int int_stat3 :: u8) 1),
        h7 @ [I2C_WRITE 0x0E 0x00 0]) \<and>
     locked (fst (snd (adv7180_update_lock_status
                         (static_client (\<lambda>reg. uint (regs reg)) (\<lambda>reg. 0))
                         sensor status_change h)))
       = (bit (regs 0x10 :: u8) 0 \<and> bit (regs 0x10) 2 \<and> bit (regs 0x49) 1)"
proof -
  have addr: "ADV7180_STATUS_1 = 0x10" "ADV7180_INT_RAW_STATUS_3 = 0x49"
    by (simp_all add: adv7180_regs)
  have rf: "locked (fst (snd (adv7180_update_lock_status
                         (static_client (\<lambda>reg. uint (regs reg)) (\<lambda>reg. 0))
                         sensor status_change h)))
       = (bit (regs 0x10 :: u8) 0 \<and> bit (regs 0x10) 2 \<and> bit (regs 0x49) 1)"
    by (simp only: update_lock_status_regfile) simp
  from addr update_lock_status_run [OF assms] rf show ?thesis
    by (intro conjI)
qed

text \<open>
  Runs on register files, from the unlocked state. With 0x05 (IN_LOCK and FSC_LOCK) in
  register 0x10 and 0x02 (SD_V_LOCK) in register 0x49 the device becomes locked; with
  every bit of both registers set but SD_V_LOCK (0xFF and 0xFD), or but IN_LOCK (0xFE
  and 0xFF), or but FSC_LOCK (0xFB and 0xFF), it stays unlocked.
\<close>

theorem update_lock_status_locked_and3_witness:
  "adv7180_update_lock_status
     (static_client (\<lambda>reg. if reg = 0x10 then 0x05 else if reg = 0x49 then 0x02 else 0)
        (\<lambda>reg. 0))
     probed_ntsc False []
   = (0, probed_ntsc\<lparr>locked := True\<rparr>, False,
      [I2C_READ 0x10 5, I2C_WRITE 0x0E 0x20 0, I2C_READ 0x42 0, I2C_READ 0x4a 0,
       I2C_WRITE 0x43 0 0, I2C_WRITE 0x4b 0 0, I2C_READ 0x49 2, I2C_WRITE 0x0E 0x00 0])
   \<and> \<not> locked (fst (snd (adv7180_update_lock_status
         (static_client (\<lambda>reg. uint ((\<lambda>r. if r = 0x49 then 0xFD else 0xFF) reg :: u8))
            (\<lambda>reg. 0))
         probed_ntsc False [])))
   \<and> \<not> locked (fst (snd (adv7180_update_lock_status
         (static_client (\<lambda>reg. uint ((\<lambda>r. if r = 0x10 then 0xFE else 0xFF) reg :: u8))
            (\<lambda>reg. 0))
         probed_ntsc False [])))
   \<and> \<not> locked (fst (snd (adv7180_update_lock_status
         (static_client (\<lambda>reg. uint ((\<lambda>r. if r = 0x10 then 0xFB else 0xFF) reg :: u8))
            (\<lambda>reg. 0))
         probed_ntsc False [])))"
proof -
  let ?client =
    "static_client (\<lambda>reg. if reg = 0x10 then 0x05 else if reg = 0x49 then 0x02 else 0)
       (\<lambda>reg. 0)"
  let ?h1 = "[] @ [I2C_READ ADV7180_STATUS_1 5]"
  let ?h2 = "?h1 @ [I2C_WRITE 0x0E 0x20 0]"
  let ?h3 = "?h2 @ [I2C_READ ADV7180_INT_STATUS_1 0]"
  let ?h4 = "?h3 @ [I2C_READ ADV7180_INT_STATUS_3 0]"
  let ?h5 = "?h4 @ [I2C_WRITE ADV7180_INT_CLEAR_1 (word_of_int 0) 0]"
  let ?h6 = "?h5 @ [I2C_WRITE ADV7180_INT_CLEAR_3 (word_of_int 0) 0]"
  let ?h7 = "?h6 @ [I2C_READ ADV7180_INT_RAW_STATUS_3 2]"
  have r1: "i2c_smbus_read_byte_data ?client [] ADV7180_STATUS_1 = 5"
    and r2: "i2c_smbus_read_byte_data ?client ?h2 ADV7180_INT_STATUS_1 = 0"
    and r3: "i2c_smbus_read_byte_data ?client ?h3 ADV7180_INT_STATUS_3 = 0"
    and r4: "i2c_smbus_read_byte_data ?client ?h6 ADV7180_INT_RAW_STATUS_3 = 2"
    by (simp_all add: static_client_def adv7180_regs)
  have w1: "i2c_smbus_write_byte_data ?client ?h1 0x0E 0x20 = 0"
    and w2: "i2c_smbus_write_byte_data ?client ?h4 ADV7180_INT_CLEAR_1 (word_of_int 0) = 0"
    and w3: "i2c_smbus_write_byte_data ?client ?h5 ADV7180_INT_CLEAR_3 (word_of_int 0) = 0"
    and w4: "i2c_smbus_write_byte_data ?client ?h7 0x0E 0x00 = 0"
    by (simp_all add: static_client_def)
  have p5: "(0::int) \<le> 5" and p0: "(0::int) \<le> 0" and p2: "(0::int) \<le> 2"
    by simp_all
  note run = update_lock_status_locked_and3
    [OF r1 p5 refl w1 refl r2 p0 refl r3 p0 refl w2 refl w3 refl r4 p2 refl w4,
     where sensor = probed_ntsc and status_change = False,
     THEN conjunct2, THEN conjunct2]
  from run [of "\<lambda>r. if r = 0x49 then 0xFD else 0xFF"]
    run [of "\<lambda>r. if r = 0x10 then 0xFE else 0xFF", THEN conjunct2]
    run [of "\<lambda>r. if r = 0x10 then 0xFB else 0xFF", THEN conjunct2]
  show ?thesis
    by (simp add: adv7180_regs)
qed

subsection \<open>Autodetected standard\<close>

text \<open>
  For every status byte, the switch on its autodetect result (bits 6 to 4) gives the
  entry of the spec's table for that code.
\<close>

lemma ad_result_switch_spec_table:
  "ad_result_switch
     (drop_bit ADV7180_AD_RESULT_BIT (ucast (stat1::u8) AND ADV7180_AD_RESULT_MASK))
   = spec_autodetect_table ! ((unat stat1 div 16) mod 8)"
proof -
  have "(unat stat1 div 16) mod 8 < 8" by simp
  from nat_lt8_cases [OF this] show ?thesis
    unfolding ad_result_extract
    by (auto simp: ad_result_switch_table spec_autodetect_table_def)
qed

text \<open>
  C3. While the device is not locked, \<open>adv7180_get_autodetect_std\<close> returns 0 with
  \<open>*status_change\<close> false, makes no transfer on the bus (the history is the one it was
  given, whatever the bus would answer) and returns the device state as it was, so the
  last detected standard, its index and the frame geometry stay.
\<close>

theorem get_autodetect_std_unlocked_noop:
  assumes "\<not> locked sensor"
  shows "adv7180_get_autodetect_std client sensor status_change h = (0, sensor, False, h)"
  using assms by (simp add: adv7180_get_autodetect_std_def)

text \<open>
  A run on an unlocked device whose status register would read 0x45 (PAL): nothing is
  read and the NTSC state stays.
\<close>

theorem get_autodetect_std_unlocked_noop_witness:
  "\<not> locked probed_ntsc \<and>
   adv7180_get_autodetect_std (static_client (\<lambda>reg. 0x45) (\<lambda>reg. 0)) probed_ntsc True []
     = (0, probed_ntsc, False, [])"
proof -
  have unlocked: "\<not> locked probed_ntsc" by (simp add: probed_ntsc_def)
  from get_autodetect_std_unlocked_noop [OF unlocked] unlocked show ?thesis by simp
qed

text \<open>
  What the locked path does once the status byte is read: the general form of the
  update.
\<close>

lemma get_autodetect_std_locked_run:
  assumes "locked sensor"
    and "i2c_smbus_read_byte_data client h ADV7180_STATUS_1 = ret" and "0 \<le> ret"
    and "ad_result_switch
           (drop_bit ADV7180_AD_RESULT_BIT
              (ucast (word_of_int ret :: u8) AND ADV7180_AD_RESULT_MASK)) = (std, idx)"
  shows "adv7180_get_autodetect_std client sensor status_change h =
     (if std \<noteq> std_id sensor
      then (0,
            sensor\<lparr>video_idx := idx, std_id := std,
              fmt := (fmt sensor)
                \<lparr>fmt_width := width (raw (video_fmts ! unat idx)),
                 fmt_height := height (raw (video_fmts ! unat idx))\<rparr>\<rparr>,
            True, h @ [I2C_READ ADV7180_STATUS_1 ret])
      else (0, sensor, False, h @ [I2C_READ ADV7180_STATUS_1 ret]))"
  using assms
  by (simp add: adv7180_get_autodetect_std_def ADV7180_READ_REG_def adv7180_read_reg_def
      Let_def)

lemma video_fmts_raw:
  "width (raw (video_fmts ! unat ADV7180_NTSC)) = 720"
  "height (raw (video_fmts ! unat ADV7180_NTSC)) = 525"
  "width (raw (video_fmts ! unat ADV7180_PAL)) = 720"
  "height (raw (video_fmts ! unat ADV7180_PAL)) = 625"
  by (simp_all add: video_fmts_def ADV7180_NTSC_def ADV7180_PAL_def)

text \<open>
  C2. On a locked device \<open>adv7180_get_autodetect_std\<close> reads the status register
  (0x10) and, for each of the codes 0 to 7 in bits 6 to 4 of the byte the bus returned,
  resolves the standard id and the table index of the spec's table: codes 0, 1, 2, 3 and
  7 give the NTSC index, codes 4, 5 and 6 the PAL index, and the ids are NTSC, NTSC
  4.43, PAL-M, PAL-60, PAL, SECAM, PAL-N and SECAM in the order of the codes. The
  result of the call is fixed by that table entry: where its id is not the stored one,
  the entry's id and index are stored, with the raw size of \<open>video_fmts\<close> at that
  index, and a change is reported; where it is the stored one, the state stays.
\<close>

theorem autodetect_code_mapping:
  assumes "locked sensor"
    and "i2c_smbus_read_byte_data client h ADV7180_STATUS_1 = ret" and "0 \<le> ret"
    and "code = (unat (word_of_int ret :: u8) div 16) mod 8"
  shows "ADV7180_STATUS_1 = 0x10 \<and> code < length spec_autodetect_table \<and>
     spec_autodetect_table =
       [(V4L2_STD_NTSC, ADV7180_NTSC), (V4L2_STD_NTSC_443, ADV7180_NTSC),
        (V4L2_STD_PAL_M, ADV7180_NTSC), (V4L2_STD_PAL_60, ADV7180_NTSC),
        (V4L2_STD_PAL, ADV7180_PAL), (V4L2_STD_SECAM, ADV7180_PAL),
        (V4L2_STD_PAL_N, ADV7180_PAL), (V4L2_STD_SECAM, ADV7180_NTSC)] \<and>
     ad_result_switch
       (drop_bit ADV7180_AD_RESULT_BIT
          (ucast (word_of_int ret :: u8) AND ADV7180_AD_RESULT_MASK))
       = spec_autodetect_table ! code \<and>
     adv7180_get_autodetect_std client sensor status_change h =
       (let (std, idx) = spec_autodetect_table ! code
        in if std \<noteq> std_id sensor
           then (0,
                 sensor\<lparr>video_idx := idx, std_id := std,
                   fmt := (fmt sensor)
                     \<lparr>fmt_width := width (raw (video_fmts ! unat idx)),
                      fmt_height := height (raw (video_fmts ! unat idx))\<rparr>\<rparr>,
                 True, h @ [I2C_READ ADV7180_STATUS_1 ret])
           else (0, sensor, False, h @ [I2C_READ ADV7180_STATUS_1 ret]))"
proof -
  obtain std idx where entry: "spec_autodetect_table ! code = (std, idx)"
    by (cases "spec_autodetect_table ! code")
  have sw: "ad_result_switch
       (drop_bit ADV7180_AD_RESULT_BIT
          (ucast (word_of_int ret :: u8) AND ADV7180_AD_RESULT_MASK))
       = spec_autodetect_table ! code"
    unfolding assms(4) by (rule ad_result_switch_spec_table)
  have len: "code < length spec_autodetect_table"
    unfolding assms(4) by (simp add: spec_autodetect_table_def)
  have run: "adv7180_get_autodetect_std client sensor status_change h =
       (let (std, idx) = spec_autodetect_table ! code
        in if std \<noteq> std_id sensor
           then (0,
                 sensor\<lparr>video_idx := idx, std_id := std,
                   fmt := (fmt sensor)
                     \<lparr>fmt_width := width (raw (video_fmts ! unat idx)),
                      fmt_height := height (raw (video_fmts ! unat idx))\<rparr>\<rparr>,
                 True, h @ [I2C_READ ADV7180_STATUS_1 ret])
           else (0, sensor, False, h @ [I2C_READ ADV7180_STATUS_1 ret]))"
    using get_autodetect_std_locked_run [OF assms(1,2,3) sw [unfolded entry]]
    by (simp add: entry)
  have addr: "ADV7180_STATUS_1 = 0x10" by (simp add: ADV7180_STATUS_1_def)
  from addr len spec_autodetect_table_def sw run show ?thesis
    by (intro conjI)
qed

text \<open>
  Runs on the locked device with NTSC stored. The status byte 0x75 (code 7) stores
  SECAM with the NTSC index and keeps 720 by 525; the byte 0x55 (code 5) stores SECAM
  with the PAL index and 720 by 625; the byte 0x05 (code 0, NTSC) changes nothing.
\<close>

theorem autodetect_code_mapping_witness:
  "adv7180_get_autodetect_std (static_client (\<lambda>reg. 0x75) (\<lambda>reg. 0))
     (probed_ntsc\<lparr>locked := True\<rparr>) False []
   = (0,
      probed_ntsc\<lparr>locked := True, video_idx := ADV7180_NTSC, std_id := V4L2_STD_SECAM\<rparr>,
      True, [I2C_READ 0x10 0x75]) \<and>
   adv7180_get_autodetect_std (static_client (\<lambda>reg. 0x55) (\<lambda>reg. 0))
     (probed_ntsc\<lparr>locked := True\<rparr>) False []
   = (0,
      probed_ntsc\<lparr>locked := True, video_idx := ADV7180_PAL, std_id := V4L2_STD_SECAM,
        fmt := \<lparr>fmt_width = 720, fmt_height = 625, fmt_code = 0x2006, fmt_field = 6\<rparr>\<rparr>,
      True, [I2C_READ 0x10 0x55]) \<and>
   adv7180_get_autodetect_std (static_client (\<lambda>reg. 0x05) (\<lambda>reg. 0))
     (probed_ntsc\<lparr>locked := True\<rparr>) True []
   = (0, probed_ntsc\<lparr>locked := True\<rparr>, False, [I2C_READ 0x10 0x05])"
proof -
  let ?sensor = "probed_ntsc\<lparr>locked := True\<rparr>"
  have lk: "locked ?sensor" by simp
  have r7: "i2c_smbus_read_byte_data (static_client (\<lambda>reg. 0x75) (\<lambda>reg. 0)) []
              ADV7180_STATUS_1 = 0x75"
    and r5: "i2c_smbus_read_byte_data (static_client (\<lambda>reg. 0x55) (\<lambda>reg. 0)) []
              ADV7180_STATUS_1 = 0x55"
    and r0: "i2c_smbus_read_byte_data (static_client (\<lambda>reg. 0x05) (\<lambda>reg. 0)) []
              ADV7180_STATUS_1 = 0x05"
    by (simp_all add: static_client_def)
  have p7: "(0::int) \<le> 0x75" and p5: "(0::int) \<le> 0x55" and p0: "(0::int) \<le> 0x05"
    by simp_all
  have c7: "(7::nat) = (unat (word_of_int 0x75 :: u8) div 16) mod 8"
    and c5: "(5::nat) = (unat (word_of_int 0x55 :: u8) div 16) mod 8"
    and c0: "(0::nat) = (unat (word_of_int 0x05 :: u8) div 16) mod 8"
    by simp_all
  note t7 = autodetect_code_mapping [OF lk r7 p7 c7, where status_change = False]
  note t5 = autodetect_code_mapping [OF lk r5 p5 c5, where status_change = False]
  note t0 = autodetect_code_mapping [OF lk r0 p0 c0, where status_change = True]
  from t7 [THEN conjunct2, THEN conjunct2, THEN conjunct2, THEN conjunct2]
    t5 [THEN conjunct2, THEN conjunct2, THEN conjunct2, THEN conjunct2]
    t0 [THEN conjunct2, THEN conjunct2, THEN conjunct2, THEN conjunct2]
  show ?thesis
    by (simp add: spec_autodetect_table_def probed_ntsc_def v4l2_stds video_fmts_raw
        ADV7180_STATUS_1_def)
qed

text \<open>
  C4. On a locked device whose status read succeeds, let \<open>(std, idx)\<close> be what the
  switch resolves from the byte. If \<open>std\<close> differs from the stored \<open>std_id\<close>, the call
  stores \<open>std\<close> and \<open>idx\<close>, sets the frame width and height to the raw size of entry
  \<open>idx\<close> of \<open>video_fmts\<close> (720 by 525 for NTSC, 720 by 625 for PAL) and reports a change;
  if it is equal, the state is returned as it was and no change is reported. With NTSC
  stored and code 4 in the byte, the standard becomes PAL, the geometry 720 by 625 and a
  change is reported.
\<close>

theorem get_autodetect_std_locked_update:
  assumes "locked sensor"
    and "i2c_smbus_read_byte_data client h ADV7180_STATUS_1 = ret" and "0 \<le> ret"
    and "ad_result_switch
           (drop_bit ADV7180_AD_RESULT_BIT
              (ucast (word_of_int ret :: u8) AND ADV7180_AD_RESULT_MASK)) = (std, idx)"
  shows "unat idx < length video_fmts \<and>
     adv7180_get_autodetect_std client sensor status_change h =
       (if std \<noteq> std_id sensor
        then (0,
              sensor\<lparr>video_idx := idx, std_id := std,
                fmt := (fmt sensor)
                  \<lparr>fmt_width := 720,
                   fmt_height := (if idx = ADV7180_PAL then 625 else 525)\<rparr>\<rparr>,
              True, h @ [I2C_READ ADV7180_STATUS_1 ret])
        else (0, sensor, False, h @ [I2C_READ ADV7180_STATUS_1 ret])) \<and>
     (std_id sensor = V4L2_STD_NTSC \<and> (unat (word_of_int ret :: u8) div 16) mod 8 = 4 \<longrightarrow>
      adv7180_get_autodetect_std client sensor status_change h =
        (0,
         sensor\<lparr>video_idx := ADV7180_PAL, std_id := V4L2_STD_PAL,
           fmt := (fmt sensor)\<lparr>fmt_width := 720, fmt_height := 625\<rparr>\<rparr>,
         True, h @ [I2C_READ ADV7180_STATUS_1 ret]))"
proof -
  let ?stat1 = "word_of_int ret :: u8"
  have sw: "ad_result_switch (word_of_nat ((unat ?stat1 div 16) mod 8)) = (std, idx)"
    using assms(4) by (simp only: ad_result_extract)
  have "idx = ADV7180_NTSC \<or> idx = ADV7180_PAL"
    using ad_result_switch_idx [of "unat ?stat1 div 16"] sw by simp
  then have idx: "unat idx < length video_fmts"
    and w: "width (raw (video_fmts ! unat idx)) = 720"
    and ht: "height (raw (video_fmts ! unat idx)) = (if idx = ADV7180_PAL then 625 else 525)"
    by (auto simp: video_fmts_raw) (simp_all add: video_fmts_def ADV7180_NTSC_def ADV7180_PAL_def)
  have run: "adv7180_get_autodetect_std client sensor status_change h =
       (if std \<noteq> std_id sensor
        then (0,
              sensor\<lparr>video_idx := idx, std_id := std,
                fmt := (fmt sensor)
                  \<lparr>fmt_width := 720,
                   fmt_height := (if idx = ADV7180_PAL then 625 else 525)\<rparr>\<rparr>,
              True, h @ [I2C_READ ADV7180_STATUS_1 ret])
        else (0, sensor, False, h @ [I2C_READ ADV7180_STATUS_1 ret]))"
    unfolding get_autodetect_std_locked_run [OF assms] w ht ..
  have pal: "adv7180_get_autodetect_std client sensor status_change h =
        (0,
         sensor\<lparr>video_idx := ADV7180_PAL, std_id := V4L2_STD_PAL,
           fmt := (fmt sensor)\<lparr>fmt_width := 720, fmt_height := 625\<rparr>\<rparr>,
         True, h @ [I2C_READ ADV7180_STATUS_1 ret])"
    if "std_id sensor = V4L2_STD_NTSC" and "(unat ?stat1 div 16) mod 8 = 4"
  proof -
    from sw that(2) have "std = V4L2_STD_PAL" "idx = ADV7180_PAL"
      by (simp_all add: ad_result_switch_table)
    with run that(1) show ?thesis
      by (simp add: v4l2_stds)
  qed
  from idx run pal show ?thesis by simp
qed

text \<open>
  The scenario of the spec: NTSC stored, the device locked, the status register reads
  0x45 (IN_LOCK, FSC_LOCK, code 4).
\<close>

theorem get_autodetect_std_locked_update_witness:
  "adv7180_get_autodetect_std (static_client (\<lambda>reg. 0x45) (\<lambda>reg. 0))
     (probed_ntsc\<lparr>locked := True\<rparr>) False []
   = (0,
      probed_ntsc\<lparr>locked := True, video_idx := ADV7180_PAL, std_id := V4L2_STD_PAL,
        fmt := \<lparr>fmt_width = 720, fmt_height = 625, fmt_code = 0x2006, fmt_field = 6\<rparr>\<rparr>,
      True, [I2C_READ 0x10 0x45])"
proof -
  let ?client = "static_client (\<lambda>reg. 0x45) (\<lambda>reg. 0)"
  let ?sensor = "probed_ntsc\<lparr>locked := True\<rparr>"
  have a: "locked ?sensor" by simp
  have b: "i2c_smbus_read_byte_data ?client [] ADV7180_STATUS_1 = 0x45"
    by (simp add: static_client_def)
  have c: "(0::int) \<le> 0x45" by simp
  have d: "ad_result_switch
             (drop_bit ADV7180_AD_RESULT_BIT
                (ucast (word_of_int 0x45 :: u8) AND ADV7180_AD_RESULT_MASK))
           = (V4L2_STD_PAL, ADV7180_PAL)"
    by (simp add: ADV7180_AD_RESULT_BIT_def ADV7180_AD_RESULT_MASK_def ad_result_switch_table)
  from get_autodetect_std_locked_update [OF a b c d, of False] show ?thesis
    by (simp add: probed_ntsc_def v4l2_stds ADV7180_STATUS_1_def)
qed

subsection \<open>Errors in the lock status update\<close>

text \<open>
  Every run of \<open>adv7180_update_lock_status\<close>, by the transfers it made: a run that
  returns an error stops at the failed transfer, which is the last event, and returns
  its code; the state and \<open>*status_change\<close> are only assigned after the eighth
  transfer has succeeded.
\<close>

lemma update_lock_status_trace:
  assumes "adv7180_update_lock_status client sensor sc h = (ret, sensor', sc', h')"
  shows "\<exists>evs. h' = h @ evs \<and> evs \<noteq> [] \<and> length evs \<le> 8 \<and>
     (\<forall>e \<in> set (butlast evs). \<not> xfer_failed e) \<and>
     xfer_failed (last evs) = (ret \<noteq> 0) \<and>
     (ret \<noteq> 0 \<longrightarrow> ret = xfer_ret (last evs)) \<and>
     (ret = 0 \<longrightarrow> length evs = 8) \<and>
     (\<forall>r. I2C_WRITE 0x0E 0x00 r \<in> set evs \<longrightarrow> length evs = 8 \<and> last evs = I2C_WRITE 0x0E 0x00 r)"
  using assms
  unfolding adv7180_update_lock_status_def ADV7180_READ_REG_def ADV7180_WRITE_REG_def
    adv7180_read_reg_def adv7180_write_reg_def Let_def adv7180_regs
  by (auto split: if_splits)

text \<open>
  C7. If a transfer of \<open>adv7180_update_lock_status\<close> fails, the function returns the
  code of the failed transfer and the device state comes back as it was: \<open>locked\<close>
  keeps its value on every error path. A transfer failed exactly when the result is not 0.
\<close>

theorem update_lock_status_error_no_mutation:
  assumes "adv7180_update_lock_status client sensor sc h = (ret, sensor', sc', h')"
  shows "\<exists>evs. h' = h @ evs \<and>
     ((\<exists>e \<in> set evs. xfer_failed e) = (ret \<noteq> 0)) \<and>
     (ret \<noteq> 0 \<longrightarrow>
        xfer_failed (last evs) \<and> ret = xfer_ret (last evs) \<and>
        sensor' = sensor \<and> locked sensor' = locked sensor \<and> sc' = sc)"
proof -
  from update_lock_status_trace [OF assms] obtain evs where
    evs: "h' = h @ evs" "evs \<noteq> []"
      "\<forall>e \<in> set (butlast evs). \<not> xfer_failed e"
      "xfer_failed (last evs) = (ret \<noteq> 0)"
      "ret \<noteq> 0 \<longrightarrow> ret = xfer_ret (last evs)"
    by blast
  from evs(2) have split: "set evs = set (butlast evs) \<union> {last evs}"
    by (metis append_butlast_last_id list.simps(15) set_append Un_insert_right
        sup_bot.right_neutral list.set(1))
  have "(\<exists>e \<in> set evs. xfer_failed e) = (ret \<noteq> 0)"
    unfolding split using evs(3,4) by auto
  moreover have "sensor' = sensor \<and> sc' = sc" if "ret \<noteq> 0"
    using update_lock_status_failure [OF assms that] .
  ultimately show ?thesis
    using evs(1,4,5) by auto
qed

text \<open>
  A run where the read of interrupt status 3 (0x4a) fails with \<open>-EIO\<close>: the error is
  returned after four transfers and the device state is the one given.
\<close>

theorem update_lock_status_error_no_mutation_witness:
  "adv7180_update_lock_status
     (static_client (\<lambda>reg. if reg = 0x4a then - EIO else 0x05) (\<lambda>reg. 0))
     (probed_ntsc\<lparr>locked := True\<rparr>) True []
   = (- 5, probed_ntsc\<lparr>locked := True\<rparr>, True,
      [I2C_READ 0x10 5, I2C_WRITE 0x0E 0x20 0, I2C_READ 0x42 5, I2C_READ 0x4a (- 5)])
   \<and> (\<exists>evs. [I2C_READ 0x10 5, I2C_WRITE 0x0E 0x20 0, I2C_READ 0x42 5, I2C_READ 0x4a (- 5)]
              = [] @ evs \<and>
          xfer_failed (last evs) \<and> xfer_ret (last evs) = - 5)"
proof -
  have run: "adv7180_update_lock_status
     (static_client (\<lambda>reg. if reg = 0x4a then - EIO else 0x05) (\<lambda>reg. 0))
     (probed_ntsc\<lparr>locked := True\<rparr>) True []
   = (- 5, probed_ntsc\<lparr>locked := True\<rparr>, True,
      [I2C_READ 0x10 5, I2C_WRITE 0x0E 0x20 0, I2C_READ 0x42 5, I2C_READ 0x4a (- 5)])"
    by (simp add: run_defs EIO_def)
  from update_lock_status_error_no_mutation [OF run] run show ?thesis
    by auto
qed

text \<open>
  C6. The claim does not hold of the source. \<open>ADV7180_READ_REG\<close> and
  \<open>ADV7180_WRITE_REG\<close> return from \<open>adv7180_update_lock_status\<close> at the failed
  transfer, so on an error return the only write of 0x00 to register 0x0E that can have
  been made is the last transfer, the one that failed: after a failed read or clear in
  the interrupt bank no restore is attempted and the bank stays switched.
\<close>

theorem update_lock_status_error_skips_bank_restore:
  assumes "adv7180_update_lock_status client sensor sc h = (ret, sensor', sc', h')"
    and "ret \<noteq> 0"
  shows "\<exists>evs. h' = h @ evs \<and> xfer_failed (last evs) \<and>
     (\<forall>r. I2C_WRITE 0x0E 0x00 r \<in> set evs \<longrightarrow> last evs = I2C_WRITE 0x0E 0x00 r)"
proof -
  from update_lock_status_trace [OF assms(1)] obtain evs where
    "h' = h @ evs" "xfer_failed (last evs) = (ret \<noteq> 0)"
    "\<forall>r. I2C_WRITE 0x0E 0x00 r \<in> set evs \<longrightarrow> length evs = 8 \<and> last evs = I2C_WRITE 0x0E 0x00 r"
    by blast
  with assms(2) show ?thesis by auto
qed

text \<open>
  The failing run: the bank switch succeeds, the read of interrupt status 1 (0x42) fails
  with \<open>-EIO\<close>. The function returns \<open>-EIO\<close> after three transfers; the last one is
  the failed read, and no write to register 0x0E follows the switch to the interrupt
  bank.
\<close>

theorem update_lock_status_error_skips_bank_restore_witness:
  "adv7180_update_lock_status
     (static_client (\<lambda>reg. if reg = 0x42 then - EIO else 0x05) (\<lambda>reg. 0))
     probed_ntsc False []
   = (- 5, probed_ntsc, False,
      [I2C_READ 0x10 5, I2C_WRITE 0x0E 0x20 0, I2C_READ 0x42 (- 5)])
   \<and> (\<exists>evs. [I2C_READ 0x10 5, I2C_WRITE 0x0E 0x20 0, I2C_READ 0x42 (- 5)] = [] @ evs \<and>
          xfer_failed (last evs) \<and> last evs = I2C_READ 0x42 (- 5) \<and>
          I2C_WRITE 0x0E 0x00 0 \<notin> set evs)"
proof -
  have run: "adv7180_update_lock_status
     (static_client (\<lambda>reg. if reg = 0x42 then - EIO else 0x05) (\<lambda>reg. 0))
     probed_ntsc False []
   = (- 5, probed_ntsc, False,
      [I2C_READ 0x10 5, I2C_WRITE 0x0E 0x20 0, I2C_READ 0x42 (- 5)])"
    by (simp add: run_defs EIO_def)
  have err: "(- 5 :: int) \<noteq> 0" by simp
  from update_lock_status_error_skips_bank_restore [OF run err] run show ?thesis
    by auto
qed

subsection \<open>Interrupt handler\<close>

text \<open>
  One run of the handler, by what the two calls return: the mutex is taken, the lock
  status and then the standard are refreshed, the mutex is released, and after that one
  notification is sent when \<open>lock_status_change\<close> or \<open>std_change\<close> holds; so there is
  never more than one, and it comes after the unlock.
\<close>

lemma adv7180_interrupt_run:
  assumes "adv7180_update_lock_status client sensor lock_status_change (h @ [MUTEX_LOCK])
             = (ret1, sensor1, lsc, h1)"
    and "adv7180_get_autodetect_std client sensor1 std_change h1 = (ret2, sensor2, sc, h2)"
  shows "adv7180_interrupt client sensor std_change lock_status_change h =
     (sensor2,
      h2 @ [MUTEX_UNLOCK] @ (if lsc \<or> sc then [DECODER_STATUS_CHANGE_NOTIFY] else []))"
  using assms by (simp add: adv7180_interrupt_def)

text \<open>
  \<open>adv7180_get_autodetect_std\<close> assigns \<open>*status_change\<close> first, so what the
  caller's variable held does not matter; \<open>adv7180_update_lock_status\<close> assigns it
  only on the run that returns 0.
\<close>

lemma get_autodetect_std_flag_assigned:
  "adv7180_get_autodetect_std client sensor a h = adv7180_get_autodetect_std client sensor b h"
  by (simp add: adv7180_get_autodetect_std_def)

lemma update_lock_status_flag_assigned:
  assumes "adv7180_update_lock_status client sensor a h = (0, sensor', sc', h')"
  shows "adv7180_update_lock_status client sensor b h = (0, sensor', sc', h')"
  using assms
  unfolding adv7180_update_lock_status_def ADV7180_READ_REG_def ADV7180_WRITE_REG_def
    adv7180_read_reg_def adv7180_write_reg_def Let_def
  by (simp split: if_splits)

text \<open>
  Where the lock status update succeeds, the notification is sent exactly when one of
  the two calls reported a change, whatever the locals held on entry.
\<close>

lemma adv7180_interrupt_refresh_ok:
  assumes "adv7180_update_lock_status client sensor a (h @ [MUTEX_LOCK])
             = (0, sensor1, lsc, h1)"
    and "adv7180_get_autodetect_std client sensor1 b h1 = (ret2, sensor2, sc, h2)"
  shows "adv7180_interrupt client sensor std_change lock_status_change h =
       (sensor2,
        h2 @ [MUTEX_UNLOCK] @ (if lsc \<or> sc then [DECODER_STATUS_CHANGE_NOTIFY] else []))"
proof -
  have 1: "adv7180_update_lock_status client sensor lock_status_change (h @ [MUTEX_LOCK])
             = (0, sensor1, lsc, h1)"
    using assms(1) by (rule update_lock_status_flag_assigned)
  have 2: "adv7180_get_autodetect_std client sensor1 std_change h1 = (ret2, sensor2, sc, h2)"
    using assms(2) by (simp only: get_autodetect_std_flag_assigned [of _ _ std_change _ b])
  from adv7180_interrupt_run [OF 1 2] show ?thesis .
qed

text \<open>
  C5. The claim does not hold of the source. \<open>adv7180_update_lock_status\<close> assigns
  \<open>*status_change\<close> only after its last transfer, and the handler drops its result
  and reads \<open>lock_status_change\<close>, which it never initialised. When the first read
  fails on an unlocked device, neither call reports a change (the first returns the
  error, the second reports none), and whether a notification is sent is decided by
  what the local held before the call.
\<close>

theorem interrupt_notifies_on_stale_flag:
  assumes "i2c_smbus_read_byte_data client (h @ [MUTEX_LOCK]) ADV7180_STATUS_1 = ret"
    and "ret < 0" and "\<not> locked sensor"
  shows "adv7180_update_lock_status client sensor lock_status_change (h @ [MUTEX_LOCK])
       = (ret, sensor, lock_status_change, h @ [MUTEX_LOCK, I2C_READ ADV7180_STATUS_1 ret]) \<and>
     adv7180_get_autodetect_std client sensor std_change
         (h @ [MUTEX_LOCK, I2C_READ ADV7180_STATUS_1 ret])
       = (0, sensor, False, h @ [MUTEX_LOCK, I2C_READ ADV7180_STATUS_1 ret]) \<and>
     adv7180_interrupt client sensor std_change lock_status_change h =
       (sensor,
        h @ [MUTEX_LOCK, I2C_READ ADV7180_STATUS_1 ret, MUTEX_UNLOCK] @
          (if lock_status_change then [DECODER_STATUS_CHANGE_NOTIFY] else []))"
proof -
  have a: "adv7180_update_lock_status client sensor lock_status_change (h @ [MUTEX_LOCK])
       = (ret, sensor, lock_status_change, h @ [MUTEX_LOCK, I2C_READ ADV7180_STATUS_1 ret])"
    using assms(1,2)
    by (simp add: adv7180_update_lock_status_def ADV7180_READ_REG_def adv7180_read_reg_def
        Let_def)
  have b: "adv7180_get_autodetect_std client sensor std_change
         (h @ [MUTEX_LOCK, I2C_READ ADV7180_STATUS_1 ret])
       = (0, sensor, False, h @ [MUTEX_LOCK, I2C_READ ADV7180_STATUS_1 ret])"
    using assms(3) by (simp add: adv7180_get_autodetect_std_def)
  from a b adv7180_interrupt_run [OF a b] show ?thesis by simp
qed

text \<open>
  The failing run: an unlocked device, every read fails with \<open>-EIO\<close>, and the
  handler's \<open>lock_status_change\<close> happens to hold true on entry. A notification is sent
  though no call reported a change; with false in the local the same interrupt sends
  none.
\<close>

theorem interrupt_notifies_on_stale_flag_witness:
  "adv7180_interrupt (static_client (\<lambda>reg. - EIO) (\<lambda>reg. 0)) probed_ntsc False True []
     = (probed_ntsc,
        [MUTEX_LOCK, I2C_READ 0x10 (- 5), MUTEX_UNLOCK, DECODER_STATUS_CHANGE_NOTIFY]) \<and>
   adv7180_interrupt (static_client (\<lambda>reg. - EIO) (\<lambda>reg. 0)) probed_ntsc False False []
     = (probed_ntsc, [MUTEX_LOCK, I2C_READ 0x10 (- 5), MUTEX_UNLOCK])"
proof -
  let ?client = "static_client (\<lambda>reg. - EIO) (\<lambda>reg. 0)"
  have a: "i2c_smbus_read_byte_data ?client ([] @ [MUTEX_LOCK]) ADV7180_STATUS_1 = - 5"
    by (simp add: static_client_def EIO_def)
  have b: "(- 5 :: int) < 0" by simp
  have c: "\<not> locked probed_ntsc" by (simp add: probed_ntsc_def)
  from interrupt_notifies_on_stale_flag
      [OF a b c, where lock_status_change = True and std_change = False]
    interrupt_notifies_on_stale_flag
      [OF a b c, where lock_status_change = False and std_change = False]
  show ?thesis by (simp add: ADV7180_STATUS_1_def)
qed

subsection \<open>Controls and input routing\<close>

text \<open>
  The part of the contract the control setters keep: a failed register write is returned
  to the caller and the device state comes back as it was (for saturation also when the
  second of the two writes fails).
\<close>

lemma s_ctrl_error_no_mutation:
  assumes "adv7180_s_ctrl client sensor ctrl h = (ret, sensor', h')" and "ret \<noteq> 0"
  shows "sensor' = sensor"
  using assms
  unfolding adv7180_s_ctrl_def ADV7180_WRITE_REG_def adv7180_write_reg_def Let_def
  by (simp split: if_splits)

lemma s_ctrl_write_failure_returned:
  assumes "ctrl_id ctrl \<in> {V4L2_CID_BRIGHTNESS, V4L2_CID_CONTRAST, V4L2_CID_SATURATION,
                           V4L2_CID_HUE}"
    and "adv7180_s_ctrl client sensor ctrl h = (ret, sensor', h @ evs)"
    and "\<exists>e \<in> set evs. xfer_failed e"
  shows "ret \<noteq> 0 \<and> ret = xfer_ret (last evs) \<and> sensor' = sensor"
  using assms
  unfolding adv7180_s_ctrl_def ADV7180_WRITE_REG_def adv7180_write_reg_def Let_def
  by (auto simp: v4l2_cids split: if_splits)

text \<open>
  \<open>adv7180_find_input\<close> finds nothing exactly for the selectors that are not the
  \<open>insel\<close> of an entry of the table, and such a selector is refused with the state
  as it was and no transfer made.
\<close>

lemma find_input_from_None:
  "(find_input_from es sel = None) = (sel \<notin> (\<lambda>e. ucast (insel e)) ` set es)"
  by (induction es) auto

lemma find_input_None:
  "(adv7180_find_input input = None)
     = (input \<notin> (\<lambda>e. ucast (insel e)) ` set adv7180_inputs_64_48)"
  by (simp only: adv7180_find_input_def find_input_from_None)

lemma s_routing_rejects_unknown:
  assumes "adv7180_find_input input = None"
  shows "adv7180_s_routing client sensor input h = (- EINVAL, sensor, h)"
  using assms by (simp add: adv7180_s_routing_def)

text \<open>
  C8. The claim does not hold of the source for the input routing.
  \<open>adv7180_s_routing\<close> calls \<open>adv7180_write_reg\<close> and drops its result: for a
  selector of the table it returns 0 and stores the selector in \<open>current_input\<close>
  whatever the write returned, also when it failed (\<open>adv7180_s_ctrl\<close> checks each write
  through \<open>ADV7180_WRITE_REG\<close>).
\<close>

theorem s_routing_ignores_write_result:
  assumes "adv7180_find_input input = Some advinput"
    and "i2c_smbus_write_byte_data client (h @ [MUTEX_LOCK]) ADV7180_INPUT_CTL (insel advinput)
           = ret"
  shows "adv7180_s_routing client sensor input h =
     (0, sensor\<lparr>current_input := input\<rparr>,
      h @ [MUTEX_LOCK, I2C_WRITE ADV7180_INPUT_CTL (insel advinput) ret, MUTEX_UNLOCK])"
  using assms by (simp add: adv7180_s_routing_def adv7180_write_reg_def Let_def)

text \<open>
  The failing run: input 1 (composite on Ain2) is selected while 0 is current, and the
  write to the input control register fails with \<open>-EIO\<close>. The call returns 0 and
  \<open>current_input\<close> is 1.
\<close>

theorem s_routing_ignores_write_result_witness:
  "adv7180_s_routing (static_client (\<lambda>reg. 0) (\<lambda>reg. - EIO)) probed_ntsc 1 []
     = (0, probed_ntsc\<lparr>current_input := 1\<rparr>,
        [MUTEX_LOCK, I2C_WRITE 0x00 0x01 (- 5), MUTEX_UNLOCK])
   \<and> xfer_failed (I2C_WRITE 0x00 0x01 (- 5))
   \<and> current_input probed_ntsc = 0"
proof -
  let ?client = "static_client (\<lambda>reg. 0) (\<lambda>reg. - EIO)"
  let ?advinput = "\<lparr>desc = ''ADV7180 Composite on Ain2'', insel = 0x01\<rparr>"
  have a: "adv7180_find_input 1 = Some ?advinput"
    by (simp add: adv7180_find_input_def adv7180_inputs_64_48_def)
  have b: "i2c_smbus_write_byte_data ?client ([] @ [MUTEX_LOCK]) ADV7180_INPUT_CTL
             (insel ?advinput) = - 5"
    by (simp add: static_client_def EIO_def)
  from s_routing_ignores_write_result [OF a b, of probed_ntsc] show ?thesis
    by (simp add: ADV7180_INPUT_CTL_def probed_ntsc_def)
qed

text \<open>
  The byte written for a hue: the truncation of the value to \<open>u8\<close>, promoted, negated
  and truncated again, is the 8-bit negation of the value.
\<close>

lemma hue_byte:
  "(ucast (- (ucast (ucast (v::s32) :: u8) :: s32)) :: u8) = word_of_int (- sint v)"
proof -
  have a: "(ucast (word_of_int (sint v) :: s32) :: u8) = word_of_int (sint v)"
    by (rule ucast_down_wi) (simp add: is_down)
  have b: "(word_of_int (sint v) :: s32) = v" by simp
  from a have "(ucast v :: u8) = word_of_int (sint v)"
    unfolding b .
  then have "- (ucast v :: u8) = word_of_int (- sint v)"
    by (simp add: wi_hom_neg)
  moreover have "(ucast (- (ucast (ucast v :: u8) :: s32)) :: u8) = - (ucast v :: u8)"
  proof -
    let ?tmp = "ucast v :: u8"
    have "- (ucast ?tmp :: s32) = word_of_int (- uint ?tmp)"
      by (simp add: wi_hom_neg)
    then have "(ucast (- (ucast ?tmp :: s32)) :: u8) = ucast (word_of_int (- uint ?tmp) :: s32)"
      by simp
    also have "\<dots> = word_of_int (- uint ?tmp)"
      by (rule ucast_down_wi) (simp add: is_down)
    also have "\<dots> = - ?tmp"
      by (simp add: wi_hom_neg)
    finally show ?thesis .
  qed
  ultimately show ?thesis by simp
qed

text \<open>
  C9. For a requested hue from -127 to 128, \<open>adv7180_s_ctrl\<close> writes to the hue
  register (0x0b) the byte that is the 8-bit two's-complement negation of the value
  (read as a signed byte it is minus the value), and when the write succeeds it stores
  the value as requested, not negated, in \<open>hue\<close>; a failed write is returned and
  \<open>hue\<close> stays.
\<close>

theorem s_ctrl_hue_negated:
  assumes "ctrl_id ctrl = V4L2_CID_HUE"
    and "- 127 \<le> sint (ctrl_val ctrl)" and "sint (ctrl_val ctrl) \<le> 128"
    and "i2c_smbus_write_byte_data client h ADV7180_HUE_REG
           (word_of_int (- sint (ctrl_val ctrl))) = ret"
  shows "ADV7180_HUE_REG = 0x0b \<and>
     sint (word_of_int (- sint (ctrl_val ctrl)) :: u8) = - sint (ctrl_val ctrl) \<and>
     adv7180_s_ctrl client sensor ctrl h =
       (if ret \<noteq> 0
        then (ret, sensor,
              h @ [I2C_WRITE ADV7180_HUE_REG (word_of_int (- sint (ctrl_val ctrl))) ret])
        else (0, sensor\<lparr>hue := ctrl_val ctrl\<rparr>,
              h @ [I2C_WRITE ADV7180_HUE_REG (word_of_int (- sint (ctrl_val ctrl))) ret]))"
proof -
  have "sint (word_of_int (- sint (ctrl_val ctrl)) :: u8)
      = signed_take_bit (LENGTH(8) - 1) (- sint (ctrl_val ctrl))"
    by (rule sint_sbintrunc')
  also have "\<dots> = - sint (ctrl_val ctrl)"
    using assms(2,3) by (intro signed_take_bit_int_eq_self) simp_all
  finally have neg: "sint (word_of_int (- sint (ctrl_val ctrl)) :: u8) = - sint (ctrl_val ctrl)" .
  have run: "adv7180_s_ctrl client sensor ctrl h =
       (if ret \<noteq> 0
        then (ret, sensor,
              h @ [I2C_WRITE ADV7180_HUE_REG (word_of_int (- sint (ctrl_val ctrl))) ret])
        else (0, sensor\<lparr>hue := ctrl_val ctrl\<rparr>,
              h @ [I2C_WRITE ADV7180_HUE_REG (word_of_int (- sint (ctrl_val ctrl))) ret]))"
    using assms(1,4)
    unfolding adv7180_s_ctrl_def ADV7180_WRITE_REG_def adv7180_write_reg_def Let_def hue_byte
    by (simp add: v4l2_cids)
  from neg run show ?thesis by (simp add: ADV7180_HUE_REG_def)
qed

text \<open>
  Two runs with the write succeeding: hue 30 writes 0xE2 (-30) and hue 128, the upper
  end of the range, writes 0x80 (-128); \<open>hue\<close> holds 30 and 128.
\<close>

theorem s_ctrl_hue_negated_witness:
  "adv7180_s_ctrl (static_client (\<lambda>reg. 0) (\<lambda>reg. 0)) probed_ntsc
     \<lparr>ctrl_id = V4L2_CID_HUE, ctrl_val = 30\<rparr> []
     = (0, probed_ntsc\<lparr>hue := 30\<rparr>, [I2C_WRITE 0x0b 0xE2 0]) \<and>
   adv7180_s_ctrl (static_client (\<lambda>reg. 0) (\<lambda>reg. 0)) probed_ntsc
     \<lparr>ctrl_id = V4L2_CID_HUE, ctrl_val = 128\<rparr> []
     = (0, probed_ntsc\<lparr>hue := 128\<rparr>, [I2C_WRITE 0x0b 0x80 0]) \<and>
   sint (0xE2 :: u8) = - 30 \<and> sint (0x80 :: u8) = - 128"
proof -
  let ?client = "static_client (\<lambda>reg. 0) (\<lambda>reg. 0)"
  let ?c30 = "\<lparr>ctrl_id = V4L2_CID_HUE, ctrl_val = 30\<rparr>"
  let ?c128 = "\<lparr>ctrl_id = V4L2_CID_HUE, ctrl_val = 128\<rparr>"
  have id30: "ctrl_id ?c30 = V4L2_CID_HUE" and id128: "ctrl_id ?c128 = V4L2_CID_HUE"
    by simp_all
  have lo30: "- 127 \<le> sint (ctrl_val ?c30)" and hi30: "sint (ctrl_val ?c30) \<le> 128"
    and lo128: "- 127 \<le> sint (ctrl_val ?c128)" and hi128: "sint (ctrl_val ?c128) \<le> 128"
    by simp_all
  have w30: "i2c_smbus_write_byte_data ?client [] ADV7180_HUE_REG
               (word_of_int (- sint (ctrl_val ?c30))) = 0"
    and w128: "i2c_smbus_write_byte_data ?client [] ADV7180_HUE_REG
               (word_of_int (- sint (ctrl_val ?c128))) = 0"
    by (simp_all add: static_client_def)
  from s_ctrl_hue_negated [OF id30 lo30 hi30 w30, of probed_ntsc]
    s_ctrl_hue_negated [OF id128 lo128 hi128 w128, of probed_ntsc]
  show ?thesis by simp
qed

subsection \<open>Power\<close>

text \<open>
  C10. \<open>adv7180_power\<close> called with \<open>enable\<close> equal to \<open>on\<close> makes no register write
  and no GPIO change and returns the device state as it was. Only the two transitions
  touch the hardware: off to on sets the power-down line to 1 where the GPIO is valid,
  sleeps 5 ms and writes 0x00 to the power management register (0x0f); on to off writes
  0x24 to it and then sets the line to 0 where the GPIO is valid.
\<close>

theorem power_idempotent:
  "ADV7180_PWR_MNG = 0x0f \<and>
   adv7180_power gpio_is_valid client sensor enable h =
    (if enable = on sensor then (sensor, h)
     else if enable then
       (let h1 = h @ (if gpio_is_valid (pwdn_gpio sensor)
                      then [GPIO_SET (pwdn_gpio sensor) 1] else [])
                   @ [USLEEP_RANGE 5000 5001]
        in (sensor\<lparr>on := True\<rparr>,
            h1 @ [I2C_WRITE ADV7180_PWR_MNG 0x00
                    (i2c_smbus_write_byte_data client h1 ADV7180_PWR_MNG 0x00)]))
     else
       (sensor\<lparr>on := False\<rparr>,
        h @ [I2C_WRITE ADV7180_PWR_MNG 0x24
               (i2c_smbus_write_byte_data client h ADV7180_PWR_MNG 0x24)]
          @ (if gpio_is_valid (pwdn_gpio sensor)
             then [GPIO_SET (pwdn_gpio sensor) 0] else [])))"
proof (cases "enable = on sensor")
  case True
  then have "sensor\<lparr>on := enable\<rparr> = sensor" by simp
  with True show ?thesis
    by (auto simp: adv7180_power_def Let_def ADV7180_PWR_MNG_def)
next
  case False
  then show ?thesis
    by (cases enable)
      (auto simp: adv7180_power_def adv7180_write_reg_def Let_def ADV7180_PWR_MNG_def)
qed

text \<open>
  Runs on the powered device with no power-down GPIO (-1 is not a valid GPIO): powering
  on again does nothing; powering off writes 0x24; powering off the device that is off
  does nothing.
\<close>

theorem power_idempotent_witness:
  "adv7180_power (\<lambda>gpio. 0 \<le> sint gpio) (static_client (\<lambda>reg. 0) (\<lambda>reg. 0))
     probed_ntsc True [] = (probed_ntsc, []) \<and>
   adv7180_power (\<lambda>gpio. 0 \<le> sint gpio) (static_client (\<lambda>reg. 0) (\<lambda>reg. 0))
     probed_ntsc False [] = (probed_ntsc\<lparr>on := False\<rparr>, [I2C_WRITE 0x0f 0x24 0]) \<and>
   adv7180_power (\<lambda>gpio. 0 \<le> sint gpio) (static_client (\<lambda>reg. 0) (\<lambda>reg. 0))
     (probed_ntsc\<lparr>on := False\<rparr>) False [I2C_WRITE 0x0f 0x24 0]
     = (probed_ntsc\<lparr>on := False\<rparr>, [I2C_WRITE 0x0f 0x24 0])"
  using
    power_idempotent [of "\<lambda>gpio. 0 \<le> sint gpio" "static_client (\<lambda>reg. 0) (\<lambda>reg. 0)"
      probed_ntsc True "[]", THEN conjunct2]
    power_idempotent [of "\<lambda>gpio. 0 \<le> sint gpio" "static_client (\<lambda>reg. 0) (\<lambda>reg. 0)"
      probed_ntsc False "[]", THEN conjunct2]
    power_idempotent [of "\<lambda>gpio. 0 \<le> sint gpio" "static_client (\<lambda>reg. 0) (\<lambda>reg. 0)"
      "probed_ntsc\<lparr>on := False\<rparr>" False "[I2C_WRITE 0x0f 0x24 0]", THEN conjunct2]
  by (simp add: probed_ntsc_def static_client_def ADV7180_PWR_MNG_def)

end
